theory Spec2Isabelle
  imports Main
begin

section \<open>Data model\<close>

text \<open>
  The script keeps three JSON documents. Their TypeScript interfaces become records;
  \<open>string | null\<close> becomes \<open>string option\<close> and the status tag a datatype.
  Symbols are modelled as ASCII strings (\<open>char list\<close>), which is what the six exchanges
  report.
\<close>

record NewListing =
  exchange :: string
  symbol :: string
  detectedAt :: string

record Exchanges =
  binance :: "string list"
  coinbase :: "string list"
  bybit :: "string list"
  upbit :: "string list"
  okx :: "string list"
  kraken :: "string list"

record ExchangeListings =
  lastUpdated :: "string option"
  exchanges :: Exchanges

record NewListingsData =
  lastChecked :: "string option"
  listings :: "NewListing list"

datatype StatusTag = success | partial_success | failed | never_run

record StatusData =
  lastRun :: "string option"
  lastSuccessfulRun :: "string option"
  status :: StatusTag
  errors :: "string list"

section \<open>The environment of a run\<close>

text \<open>
  Everything the script obtains from outside is a field of the environment:
  \<^item> \<open>clock k\<close> is the time value (milliseconds since the epoch) of the \<open>k\<close>-th
    evaluation of \<open>new Date()\<close> that the model counts;
  \<^item> \<open>toISOString\<close> and \<open>parseDate\<close> are the runtime's \<open>Date.prototype.toISOString\<close>
    and the time value of \<open>new Date(s)\<close>, where \<open>None\<close> is the Invalid Date (NaN);
  \<^item> \<open>LocalTZA t isUTC\<close> is the offset of local time from UTC in milliseconds, as in
    ECMAScript: for a UTC instant when \<open>isUTC\<close>, for a local time value otherwise;
  \<^item> \<open>fetchBinance\<close>, ..., \<open>fetchKraken\<close> are the outcomes of the six fetchers:
    \<open>Inr\<close> the list of active symbols, \<open>Inl\<close> the rendering of the error thrown;
  \<^item> \<open>writeError k\<close> is the error, if any, thrown by the \<open>k\<close>-th call of
    \<open>fs.writeFileSync\<close> in \<open>writeJSON\<close>.
  The daily log file written by \<open>writeLog\<close> is not part of the model.
\<close>

record Env =
  clock :: "nat \<Rightarrow> int"
  toISOString :: "int \<Rightarrow> string"
  parseDate :: "string \<Rightarrow> int option"
  LocalTZA :: "int \<Rightarrow> bool \<Rightarrow> int"
  fetchBinance :: "string + string list"
  fetchCoinbase :: "string + string list"
  fetchBybit :: "string + string list"
  fetchUpbit :: "string + string list"
  fetchOKX :: "string + string list"
  fetchKraken :: "string + string list"
  writeError :: "nat \<Rightarrow> string option"

definition RETENTION_DAYS :: int where
  "RETENTION_DAYS = 30"

section \<open>Utility functions\<close>

text \<open>
  \<open>symbol.replace(/[-_\/]/g, '')\<close> scans the string once and drops every character of
  the class. \<open>toUpperCase()\<close> is modelled on ASCII strings, where it maps the letters
  \<open>a\<close>..\<open>z\<close> to \<open>A\<close>..\<open>Z\<close> and leaves every other character as it is. On a string
  with a character outside ASCII the runtime applies the Unicode case mapping, which can
  also lengthen the string; such symbols are outside this model. \<open>isASCII\<close> marks the
  symbols the model covers, and what is stated about upper-casing is stated for them.
\<close>

definition isSeparator :: "char \<Rightarrow> bool" where
  "isSeparator c = (c = CHR ''-'' \<or> c = CHR ''_'' \<or> c = CHR ''/'')"

fun replaceSeparators :: "string \<Rightarrow> string" where
  "replaceSeparators [] = []"
| "replaceSeparators (c # cs) =
     (if isSeparator c then replaceSeparators cs else c # replaceSeparators cs)"

definition toUpperCase_char :: "char \<Rightarrow> char" where
  "toUpperCase_char c =
     (let n = (of_char c :: nat)
      in if 97 \<le> n \<and> n \<le> 122 then char_of (n - 32) else c)"

fun toUpperCase :: "string \<Rightarrow> string" where
  "toUpperCase [] = []"
| "toUpperCase (c # cs) = toUpperCase_char c # toUpperCase cs"

definition normalizeSymbol :: "string \<Rightarrow> string" where
  "normalizeSymbol s = toUpperCase (replaceSeparators s)"



section \<open>Detection of new listings\<close>

text \<open>
  The \<open>for\<close> loop of \<open>detectNewListings\<close>: \<open>t\<close> counts the clock readings taken so far,
  \<open>acc\<close> is the array \<open>newListings\<close> that \<open>push\<close> extends at its end.
\<close>

fun detectLoop ::
  "Env \<Rightarrow> string set \<Rightarrow> string \<Rightarrow> string list \<Rightarrow> nat \<Rightarrow> NewListing list
     \<Rightarrow> NewListing list \<times> nat" where
  "detectLoop e oldNormalized exchangeName [] t acc = (acc, t)"
| "detectLoop e oldNormalized exchangeName (s # rest) t acc =
     (let normalized = normalizeSymbol s
      in if normalized \<notin> oldNormalized
         then detectLoop e oldNormalized exchangeName rest (Suc t)
                (acc @ [\<lparr>exchange = exchangeName, symbol = s,
                         detectedAt = toISOString e (clock e t)\<rparr>])
         else detectLoop e oldNormalized exchangeName rest t acc)"

definition detectNewListings ::
  "Env \<Rightarrow> nat \<Rightarrow> string list \<Rightarrow> string list \<Rightarrow> string \<Rightarrow> NewListing list \<times> nat" where
  "detectNewListings e t oldSymbols newSymbols exchangeName =
     (let oldNormalized = set (map normalizeSymbol oldSymbols)
      in detectLoop e oldNormalized exchangeName newSymbols t [])"

section \<open>Retention\<close>

text \<open>
  Dates are time values: integers counting milliseconds since the epoch. The methods
  \<open>getDate\<close> and \<open>setDate\<close> work on the local calendar, so \<open>cutoffDate\<close> goes
  through local time as ECMAScript defines it: \<open>setDate(getDate() - 30)\<close> keeps the local
  time within the day and moves the local day number back by 30 (\<open>MakeDay\<close> of the
  current local year and month with day-of-month \<open>DateFromTime - 30\<close> is the local day
  number minus 30), and the result is converted back to UTC.
\<close>

definition msPerDay :: int where
  "msPerDay = 86400000"

definition Day :: "int \<Rightarrow> int" where
  "Day t = t div msPerDay"

definition TimeWithinDay :: "int \<Rightarrow> int" where
  "TimeWithinDay t = t mod msPerDay"

definition MakeDate :: "int \<Rightarrow> int \<Rightarrow> int" where
  "MakeDate day time = day * msPerDay + time"

definition LocalTime :: "Env \<Rightarrow> int \<Rightarrow> int" where
  "LocalTime e t = t + LocalTZA e t True"

definition UTC :: "Env \<Rightarrow> int \<Rightarrow> int" where
  "UTC e t = t - LocalTZA e t False"

definition cutoffDate :: "Env \<Rightarrow> int \<Rightarrow> int" where
  "cutoffDate e now =
     (let t = LocalTime e now;
          newDate = MakeDate (Day t - RETENTION_DAYS) (TimeWithinDay t)
      in UTC e newDate)"

text \<open>
  \<open>listingDate >= cutoffDate\<close> compares the two time values as numbers; a comparison
  with NaN is false.
\<close>

definition date_ge :: "int option \<Rightarrow> int \<Rightarrow> bool" where
  "date_ge listingDate cutoff =
     (case listingDate of None \<Rightarrow> False | Some t \<Rightarrow> cutoff \<le> t)"

text \<open>\<open>cleanOldListings\<close> takes one clock reading, the \<open>t\<close>-th, for \<open>cutoffDate\<close>.\<close>

definition cleanOldListings :: "Env \<Rightarrow> nat \<Rightarrow> NewListing list \<Rightarrow> NewListing list \<times> nat" where
  "cleanOldListings e t ls =
     (let cutoff = cutoffDate e (clock e t)
      in (filter (\<lambda>listing. date_ge (parseDate e (detectedAt listing)) cutoff) ls, Suc t))"

section \<open>The three documents on disk\<close>

text \<open>
  A file holds either a document of the declared shape or, as \<open>Inl\<close>, the error that
  reading or parsing it throws. \<open>written\<close> records which files the run has written,
  in order; a write that throws leaves the file as it was.
\<close>

datatype FilePath = FILES_cexListings | FILES_newListings | FILES_status

record World =
  cexListingsFile :: "string + ExchangeListings"
  newListingsFile :: "string + NewListingsData"
  statusFile :: "string + StatusData"
  ticks :: nat
  writes :: nat
  written :: "FilePath list"

definition readJSON :: "string + 'a \<Rightarrow> string + 'a" where
  "readJSON file = (case file of Inl err \<Rightarrow> Inl err | Inr data \<Rightarrow> Inr data)"

definition writeJSON ::
  "Env \<Rightarrow> FilePath \<Rightarrow> (World \<Rightarrow> World) \<Rightarrow> World \<Rightarrow> (string + unit) \<times> World" where
  "writeJSON e filePath store w =
     (case writeError e (writes w) of
        Some err \<Rightarrow> (Inl err, w\<lparr>writes := Suc (writes w)\<rparr>)
      | None \<Rightarrow>
          (Inr (), (store w)\<lparr>writes := Suc (writes w), written := written w @ [filePath]\<rparr>))"

definition writeJSON_cexListings ::
  "Env \<Rightarrow> ExchangeListings \<Rightarrow> World \<Rightarrow> (string + unit) \<times> World" where
  "writeJSON_cexListings e data =
     writeJSON e FILES_cexListings (\<lambda>w. w\<lparr>cexListingsFile := Inr data\<rparr>)"

definition writeJSON_newListings ::
  "Env \<Rightarrow> NewListingsData \<Rightarrow> World \<Rightarrow> (string + unit) \<times> World" where
  "writeJSON_newListings e data =
     writeJSON e FILES_newListings (\<lambda>w. w\<lparr>newListingsFile := Inr data\<rparr>)"

definition writeJSON_status ::
  "Env \<Rightarrow> StatusData \<Rightarrow> World \<Rightarrow> (string + unit) \<times> World" where
  "writeJSON_status e data =
     writeJSON e FILES_status (\<lambda>w. w\<lparr>statusFile := Inr data\<rparr>)"

section \<open>The run\<close>

text \<open>
  Each of the six \<open>try\<close>/\<open>catch\<close> blocks of \<open>updateListings\<close> has the same body, here
  \<open>fetchAndDetect\<close>: on success the fetched list is the result and the detected listings
  are appended to \<open>allNewListings\<close>; on failure the message is pushed on \<open>errors\<close> and
  the old list is the result. It returns the entry of \<open>results\<close> and the new
  \<open>errors\<close>, \<open>allNewListings\<close> and clock count.
\<close>

definition fetchAndDetect ::
  "Env \<Rightarrow> string \<Rightarrow> string + string list \<Rightarrow> string list
     \<Rightarrow> string list \<times> NewListing list \<times> nat
     \<Rightarrow> string list \<times> string list \<times> NewListing list \<times> nat" where
  "fetchAndDetect e exchangeName fetched oldSymbols st =
     (case st of (errs, allNewListings, t) \<Rightarrow>
        (case fetched of
           Inr result \<Rightarrow>
             (case detectNewListings e t oldSymbols result exchangeName of
                (detected, t') \<Rightarrow> (result, errs, allNewListings @ detected, t'))
         | Inl err \<Rightarrow>
             (oldSymbols, errs @ [exchangeName @ '': '' @ err], allNewListings, t)))"

definition fetchAll ::
  "Env \<Rightarrow> Exchanges \<Rightarrow> nat \<Rightarrow> Exchanges \<times> string list \<times> NewListing list \<times> nat" where
  "fetchAll e old t0 =
     (case fetchAndDetect e ''Binance'' (fetchBinance e) (binance old) ([], [], t0) of
        (r1, st1) \<Rightarrow>
     (case fetchAndDetect e ''Coinbase'' (fetchCoinbase e) (coinbase old) st1 of
        (r2, st2) \<Rightarrow>
     (case fetchAndDetect e ''Bybit'' (fetchBybit e) (bybit old) st2 of
        (r3, st3) \<Rightarrow>
     (case fetchAndDetect e ''Upbit'' (fetchUpbit e) (upbit old) st3 of
        (r4, st4) \<Rightarrow>
     (case fetchAndDetect e ''OKX'' (fetchOKX e) (okx old) st4 of
        (r5, st5) \<Rightarrow>
     (case fetchAndDetect e ''Kraken'' (fetchKraken e) (kraken old) st5 of
        (r6, st6) \<Rightarrow>
          (\<lparr>binance = r1, coinbase = r2, bybit = r3, upbit = r4, okx = r5, kraken = r6\<rparr>,
           st6)))))))"

definition statusTag :: "string list \<Rightarrow> StatusTag" where
  "statusTag errs =
     (if length errs = 0 then success
      else if length errs < 6 then partial_success else failed)"

text \<open>
  The body of the outer \<open>try\<close>. Every entry of \<open>results\<close> is an array by now, so
  \<open>results.binance || []\<close> is \<open>results.binance\<close>.
\<close>

definition tryBody :: "Env \<Rightarrow> string \<Rightarrow> World \<Rightarrow> (string + unit) \<times> World" where
  "tryBody e startTime w1 =
     (case readJSON (cexListingsFile w1) of
        Inl err \<Rightarrow> (Inl err, w1)
      | Inr oldListings \<Rightarrow>
     (case readJSON (newListingsFile w1) of
        Inl err \<Rightarrow> (Inl err, w1)
      | Inr newListingsData \<Rightarrow>
     (case fetchAll e (exchanges oldListings) (ticks w1) of
        (results, errs, allNewListings, t2) \<Rightarrow>
     (case writeJSON_cexListings e
             \<lparr>lastUpdated = Some (toISOString e (clock e t2)), exchanges = results\<rparr>
             (w1\<lparr>ticks := Suc t2\<rparr>) of
        (Inl err, w2) \<Rightarrow> (Inl err, w2)
      | (Inr _, w2) \<Rightarrow>
     (case cleanOldListings e (ticks w2) (listings newListingsData @ allNewListings) of
        (cleanedListings, t3) \<Rightarrow>
     (case writeJSON_newListings e
             \<lparr>lastChecked = Some (toISOString e (clock e t3)), listings = cleanedListings\<rparr>
             (w2\<lparr>ticks := Suc t3\<rparr>) of
        (Inl err, w3) \<Rightarrow> (Inl err, w3)
      | (Inr _, w3) \<Rightarrow>
     (case (if length errs = 0 then Inr (Some startTime)
            else (case readJSON (statusFile w3) of
                    Inl err \<Rightarrow> Inl err
                  | Inr prev \<Rightarrow> Inr (lastSuccessfulRun prev))) of
        Inl err \<Rightarrow> (Inl err, w3)
      | Inr lastOk \<Rightarrow>
          writeJSON_status e
            \<lparr>lastRun = Some startTime, lastSuccessfulRun = lastOk,
             status = statusTag errs, errors = errs\<rparr> w3)))))))"

text \<open>
  \<open>updateListings\<close>: the start time, the \<open>try\<close> body, and the \<open>catch\<close> handler, which
  reads the status document, writes a failed status and throws the error again. An
  error thrown inside the handler replaces the one being handled.
\<close>

definition updateListings :: "Env \<Rightarrow> World \<Rightarrow> (string + unit) \<times> World" where
  "updateListings e w0 =
     (let startTime = toISOString e (clock e (ticks w0));
          w1 = w0\<lparr>ticks := Suc (ticks w0)\<rparr>
      in case tryBody e startTime w1 of
           (Inr u, w2) \<Rightarrow> (Inr u, w2)
         | (Inl err, w2) \<Rightarrow>
             (case readJSON (statusFile w2) of
                Inl err2 \<Rightarrow> (Inl err2, w2)
              | Inr prev \<Rightarrow>
                  (case writeJSON_status e
                          \<lparr>lastRun = Some startTime,
                           lastSuccessfulRun = lastSuccessfulRun prev,
                           status = failed, errors = [''Critical: '' @ err]\<rparr> w2 of
                     (Inl err3, w3) \<Rightarrow> (Inl err3, w3)
                   | (Inr _, w3) \<Rightarrow> (Inl err, w3))))"

section \<open>A concrete run\<close>

text \<open>
  An environment in UTC whose clock starts at 2023-11-14T22:13:20Z and advances one
  second per reading, in which the Coinbase and OKX fetches fail; and the documents it
  starts from. \<open>exampleISO\<close> and \<open>exampleParse\<close> tabulate \<open>toISOString\<close> and the date
  parser on the instants that occur.
\<close>

definition exampleISO :: "int \<Rightarrow> string" where
  "exampleISO t =
     (if t = 1700000000000 then ''2023-11-14T22:13:20.000Z''
      else if t = 1700000001000 then ''2023-11-14T22:13:21.000Z''
      else if t = 1700000002000 then ''2023-11-14T22:13:22.000Z''
      else if t = 1700000003000 then ''2023-11-14T22:13:23.000Z''
      else if t = 1700000004000 then ''2023-11-14T22:13:24.000Z''
      else if t = 1700000005000 then ''2023-11-14T22:13:25.000Z''
      else if t = 1711382400000 then ''2024-03-25T16:00:00.000Z''
      else [])"

definition exampleParse :: "string \<Rightarrow> int option" where
  "exampleParse s =
     (if s = ''2023-11-14T22:13:21.000Z'' then Some 1700000001000
      else if s = ''2023-11-14T22:13:22.000Z'' then Some 1700000002000
      else if s = ''2023-10-16T22:13:20.000Z'' then Some 1697494400000
      else if s = ''2023-10-15T22:13:20.000Z'' then Some 1697408000000
      else if s = ''2023-10-14T22:13:20.000Z'' then Some 1697321600000
      else if s = ''2024-02-24T16:00:00.000Z'' then Some 1708790400000
      else None)"

definition exampleEnv :: Env where
  "exampleEnv =
     \<lparr>clock = (\<lambda>k. 1700000000000 + 1000 * int k),
      toISOString = exampleISO,
      parseDate = exampleParse,
      LocalTZA = (\<lambda>t isUTC. 0),
      fetchBinance = Inr [''BTCUSDT'', ''ETHUSDT''],
      fetchCoinbase = Inl ''Error: Invalid Coinbase API response'',
      fetchBybit = Inr [''BTCUSDT''],
      fetchUpbit = Inr [''KRW-BTC'', ''KRW-ETH''],
      fetchOKX = Inl ''FetchError: request failed'',
      fetchKraken = Inr [''XXBTZUSD''],
      writeError = (\<lambda>k. None)\<rparr>"

definition exampleLog :: "NewListing list" where
  "exampleLog =
     [\<lparr>exchange = ''Kraken'', symbol = ''XXBTZUSD'', detectedAt = ''2023-10-14T22:13:20.000Z''\<rparr>,
      \<lparr>exchange = ''Bybit'', symbol = ''BTCUSDT'', detectedAt = ''2023-10-15T22:13:20.000Z''\<rparr>,
      \<lparr>exchange = ''OKX'', symbol = ''BTC-USDT'', detectedAt = ''yesterday''\<rparr>,
      \<lparr>exchange = ''Upbit'', symbol = ''KRW-BTC'', detectedAt = ''2023-10-16T22:13:20.000Z''\<rparr>]"

definition exampleStatus :: StatusData where
  "exampleStatus =
     \<lparr>lastRun = Some ''2023-11-13T22:13:20.000Z'',
      lastSuccessfulRun = Some ''2023-11-12T22:13:20.000Z'',
      status = partial_success, errors = [''Kraken: Error: Invalid Kraken API response'']\<rparr>"

definition exampleWorld :: World where
  "exampleWorld =
     \<lparr>cexListingsFile = Inr
        \<lparr>lastUpdated = Some ''2023-11-13T22:13:20.000Z'',
         exchanges = \<lparr>binance = [''BTCUSDT''], coinbase = [''BTC-USD''], bybit = [''BTCUSDT''],
                      upbit = [''KRW-BTC''], okx = [''BTC-USDT''], kraken = [''XXBTZUSD'']\<rparr>\<rparr>,
      newListingsFile = Inr \<lparr>lastChecked = Some ''2023-11-13T22:13:20.000Z'', listings = exampleLog\<rparr>,
      statusFile = Inr exampleStatus,
      ticks = 0, writes = 0, written = []\<rparr>"

text \<open>The documents and counters after the run of \<open>exampleEnv\<close> on \<open>exampleWorld\<close>.\<close>

definition exampleAfter :: World where
  "exampleAfter =
     \<lparr>cexListingsFile = Inr
        \<lparr>lastUpdated = Some ''2023-11-14T22:13:23.000Z'',
         exchanges = \<lparr>binance = [''BTCUSDT'', ''ETHUSDT''], coinbase = [''BTC-USD''],
                      bybit = [''BTCUSDT''], upbit = [''KRW-BTC'', ''KRW-ETH''],
                      okx = [''BTC-USDT''], kraken = [''XXBTZUSD'']\<rparr>\<rparr>,
      newListingsFile = Inr
        \<lparr>lastChecked = Some ''2023-11-14T22:13:25.000Z'',
         listings =
           [\<lparr>exchange = ''Upbit'', symbol = ''KRW-BTC'', detectedAt = ''2023-10-16T22:13:20.000Z''\<rparr>,
            \<lparr>exchange = ''Binance'', symbol = ''ETHUSDT'', detectedAt = ''2023-11-14T22:13:21.000Z''\<rparr>,
            \<lparr>exchange = ''Upbit'', symbol = ''KRW-ETH'', detectedAt = ''2023-11-14T22:13:22.000Z''\<rparr>]\<rparr>,
      statusFile = Inr
        \<lparr>lastRun = Some ''2023-11-14T22:13:20.000Z'',
         lastSuccessfulRun = Some ''2023-11-12T22:13:20.000Z'',
         status = partial_success,
         errors = [''Coinbase: Error: Invalid Coinbase API response'',
                   ''OKX: FetchError: request failed'']\<rparr>,
      ticks = 6, writes = 3,
      written = [FILES_cexListings, FILES_newListings, FILES_status]\<rparr>"

text \<open>
  The same environment on the local time of New York in March 2024: the offset is
  five hours before the change of 2024-03-10T07:00Z and four hours after it; the clock
  starts at 2024-03-25T16:00Z.
\<close>

definition newYorkTZA :: "int \<Rightarrow> bool \<Rightarrow> int" where
  "newYorkTZA t isUTC =
     (if isUTC then (if t < 1710054000000 then - 18000000 else - 14400000)
      else (if t < 1710039600000 then - 18000000 else - 14400000))"

definition newYorkEnv :: Env where
  "newYorkEnv =
     exampleEnv\<lparr>clock := (\<lambda>k. 1711382400000 + 1000 * int k), LocalTZA := newYorkTZA\<rparr>"

text \<open>The same environment on a disk that fills up: the second write of the run fails.\<close>

definition diskFullEnv :: Env where
  "diskFullEnv =
     exampleEnv\<lparr>writeError :=
       (\<lambda>k. if k = 1 then Some ''Error: ENOSPC: no space left on device, write'' else None)\<rparr>"

section \<open>Counting the failed fetches\<close>

definition failedFetches :: "Env \<Rightarrow> nat" where
  "failedFetches e =
     length (filter isl
       [fetchBinance e, fetchCoinbase e, fetchBybit e, fetchUpbit e, fetchOKX e, fetchKraken e])"

section \<open>Properties of the symbol normalizer\<close>












section \<open>Properties of the listing differ\<close>

lemma detectLoop_events:
  "detectLoop e S x ns t acc =
     (acc @ map (\<lambda>(k, s). \<lparr>exchange = x, symbol = s, detectedAt = toISOString e (clock e k)\<rparr>)
              (enumerate t (filter (\<lambda>s. normalizeSymbol s \<notin> S) ns)),
      t + length (filter (\<lambda>s. normalizeSymbol s \<notin> S) ns))"
  by (induction ns arbitrary: t acc) (simp_all add: Let_def)

lemma detectNewListings_events:
  "detectNewListings e t old new x =
     (map (\<lambda>(k, s). \<lparr>exchange = x, symbol = s, detectedAt = toISOString e (clock e k)\<rparr>)
        (enumerate t (filter (\<lambda>s. normalizeSymbol s \<notin> normalizeSymbol ` set old) new)),
      t + length (filter (\<lambda>s. normalizeSymbol s \<notin> normalizeSymbol ` set old) new))"
  by (simp add: detectNewListings_def detectLoop_events)

lemma map_symbol_events:
  "map symbol (map (\<lambda>(k, s). \<lparr>exchange = x, symbol = s, detectedAt = f k\<rparr>) ps) = map snd ps"
  by (induction ps) auto

lemma map_exchange_events:
  "map exchange (map (\<lambda>(k, s). \<lparr>exchange = x, symbol = s, detectedAt = f k\<rparr>) ps) =
     replicate (length ps) x"
  by (induction ps) auto

lemma map_symbol_detect:
  "map symbol (fst (detectNewListings e t old new x)) =
     filter (\<lambda>s. normalizeSymbol s \<notin> normalizeSymbol ` set old) new"
  by (simp only: detectNewListings_events fst_conv map_symbol_events map_snd_enumerate)

lemma map_exchange_detect:
  "map exchange (fst (detectNewListings e t old new x)) =
     replicate (length (fst (detectNewListings e t old new x))) x"
  by (simp only: detectNewListings_events fst_conv map_exchange_events length_map)

lemma detect_empty_iff:
  "fst (detectNewListings e t old new x) = [] \<longleftrightarrow>
     (\<forall>s \<in> set new. normalizeSymbol s \<in> normalizeSymbol ` set old)"
proof -
  have "fst (detectNewListings e t old new x) = [] \<longleftrightarrow>
      map symbol (fst (detectNewListings e t old new x)) = []"
    by simp
  then show ?thesis
    by (simp only: map_symbol_detect filter_empty_conv) blast
qed



text \<open>
  C2. For all old and new symbol lists and every exchange id, the differ emits one event
  for each element of the new list whose normalized form is not among the normalized
  forms of the old list, in the order of the new list; each event carries the raw symbol
  of the new list, the exchange id and the time read when it was emitted. With the old
  list \<open>BTCUSDT\<close> and the new list \<open>BTCUSDT\<close>, \<open>ETHUSDT\<close> on Binance there is exactly one
  event, for the raw symbol \<open>ETHUSDT\<close>.
\<close>

theorem detectNewListings_emits:
  "fst (detectNewListings e t oldSymbols newSymbols x) =
     map (\<lambda>(k, s). \<lparr>exchange = x, symbol = s, detectedAt = toISOString e (clock e k)\<rparr>)
       (enumerate t
          (filter (\<lambda>s. normalizeSymbol s \<notin> normalizeSymbol ` set oldSymbols) newSymbols))
   \<and> map symbol (fst (detectNewListings e t oldSymbols newSymbols x)) =
       filter (\<lambda>s. normalizeSymbol s \<notin> normalizeSymbol ` set oldSymbols) newSymbols
   \<and> map exchange (fst (detectNewListings e t oldSymbols newSymbols x)) =
       replicate
         (length (filter (\<lambda>s. normalizeSymbol s \<notin> normalizeSymbol ` set oldSymbols) newSymbols)) x
   \<and> fst (detectNewListings e t [''BTCUSDT''] [''BTCUSDT'', ''ETHUSDT''] ''Binance'') =
       [\<lparr>exchange = ''Binance'', symbol = ''ETHUSDT'', detectedAt = toISOString e (clock e t)\<rparr>]"
proof -
  have "normalizeSymbol ''ETHUSDT'' \<noteq> normalizeSymbol ''BTCUSDT''"
    by (simp add: normalizeSymbol_def isSeparator_def toUpperCase_char_def)
  then have "fst (detectNewListings e t [''BTCUSDT''] [''BTCUSDT'', ''ETHUSDT''] ''Binance'') =
      [\<lparr>exchange = ''Binance'', symbol = ''ETHUSDT'', detectedAt = toISOString e (clock e t)\<rparr>]"
    by (simp add: detectNewListings_events)
  moreover have "map exchange (fst (detectNewListings e t oldSymbols newSymbols x)) =
       replicate
         (length (filter (\<lambda>s. normalizeSymbol s \<notin> normalizeSymbol ` set oldSymbols) newSymbols)) x"
    by (simp only: detectNewListings_events fst_conv map_exchange_events length_map
        length_enumerate)
  ultimately show ?thesis
    by (simp only: map_symbol_detect) (simp only: detectNewListings_events fst_conv simp_thms)
qed

theorem detectNewListings_emits_witness:
  "fst (detectNewListings exampleEnv 1 [''BTCUSDT''] [''BTCUSDT'', ''ETHUSDT''] ''Binance'') =
     [\<lparr>exchange = ''Binance'', symbol = ''ETHUSDT'', detectedAt = ''2023-11-14T22:13:21.000Z''\<rparr>]
   \<and> map symbol (fst (detectNewListings exampleEnv 0 [''KRW-BTC''] [''KRW-BTC'', ''KRW-ETH''] ''Upbit'')) =
       [''KRW-ETH'']"
proof -
  have iso: "toISOString exampleEnv (clock exampleEnv 1) = ''2023-11-14T22:13:21.000Z''"
    by (simp add: exampleEnv_def exampleISO_def)
  have flt: "filter (\<lambda>s. normalizeSymbol s \<notin> normalizeSymbol ` set [''KRW-BTC''])
      [''KRW-BTC'', ''KRW-ETH''] = [''KRW-ETH'']"
    by (simp add: normalizeSymbol_def isSeparator_def toUpperCase_char_def)
  from detectNewListings_emits [of exampleEnv 1]
  have "fst (detectNewListings exampleEnv 1 [''BTCUSDT''] [''BTCUSDT'', ''ETHUSDT''] ''Binance'') =
      [\<lparr>exchange = ''Binance'', symbol = ''ETHUSDT'',
        detectedAt = toISOString exampleEnv (clock exampleEnv 1)\<rparr>]"
    by blast
  moreover from detectNewListings_emits [of exampleEnv 0 "[''KRW-BTC'']" "[''KRW-BTC'', ''KRW-ETH'']" "''Upbit''"]
  have "map symbol (fst (detectNewListings exampleEnv 0 [''KRW-BTC''] [''KRW-BTC'', ''KRW-ETH''] ''Upbit'')) =
      filter (\<lambda>s. normalizeSymbol s \<notin> normalizeSymbol ` set [''KRW-BTC'']) [''KRW-BTC'', ''KRW-ETH'']"
    by blast
  ultimately show ?thesis
    by (simp only: iso flt)
qed

text \<open>
  C7. If every symbol of the new list has its normalized form among the normalized forms
  of the old list, the differ returns the empty list. So a list diffed against itself
  gives nothing, and diffing the same new list again, against the old list extended by
  the symbols just detected or against the new list itself (which is what the snapshot
  holds after a successful fetch), gives no further events.
\<close>

theorem detectNewListings_no_rediscovery:
  "((\<forall>s \<in> set newSymbols. normalizeSymbol s \<in> normalizeSymbol ` set oldSymbols) \<longrightarrow>
      fst (detectNewListings e t oldSymbols newSymbols x) = [])
   \<and> fst (detectNewListings e t oldSymbols oldSymbols x) = []
   \<and> fst (detectNewListings e t'
        (oldSymbols @ map symbol (fst (detectNewListings e t oldSymbols newSymbols x)))
        newSymbols x') = []
   \<and> fst (detectNewListings e t' newSymbols newSymbols x') = []"
proof -
  have self: "fst (detectNewListings e k ss ss y) = []" for k ss y
    by (simp add: detect_empty_iff)
  have "normalizeSymbol s \<in> normalizeSymbol `
      set (oldSymbols @ map symbol (fst (detectNewListings e t oldSymbols newSymbols x)))"
    if "s \<in> set newSymbols" for s
  proof (cases "normalizeSymbol s \<in> normalizeSymbol ` set oldSymbols")
    case True
    then show ?thesis by auto
  next
    case False
    with that have "s \<in> set (map symbol (fst (detectNewListings e t oldSymbols newSymbols x)))"
      by (simp only: map_symbol_detect set_filter) simp
    then show ?thesis
      by (simp only: set_append) blast
  qed
  then have "fst (detectNewListings e t'
        (oldSymbols @ map symbol (fst (detectNewListings e t oldSymbols newSymbols x)))
        newSymbols x') = []"
    by (simp only: detect_empty_iff) blast
  with self show ?thesis
    by (simp add: detect_empty_iff)
qed

theorem detectNewListings_no_rediscovery_witness:
  "normalizeSymbol ''BTCUSD'' \<in> normalizeSymbol ` set [''BTC-USD'']
   \<and> fst (detectNewListings exampleEnv 0 [''BTC-USD''] [''BTCUSD''] ''Coinbase'') = []"
proof -
  have h: "\<forall>s \<in> set [''BTCUSD'']. normalizeSymbol s \<in> normalizeSymbol ` set [''BTC-USD'']"
    by (simp add: normalizeSymbol_def isSeparator_def toUpperCase_char_def)
  with detectNewListings_no_rediscovery
    [of "[''BTCUSD'']" "[''BTC-USD'']" exampleEnv 0 "''Coinbase''"]
  show ?thesis
    by simp
qed

text \<open>
  C9. The differ does not deduplicate by normalized form: the number of events whose
  symbol has a given normalized form is the number of elements of the new list with that
  form (when the form is absent from the old list, and zero otherwise). Two distinct raw
  symbols with the same new normalized form therefore give two events; \<open>BTC-USD\<close> and
  \<open>BTC_USD\<close> against an empty old list are both reported.
\<close>

theorem detectNewListings_no_dedup:
  "length (filter (\<lambda>l. normalizeSymbol (symbol l) = n)
       (fst (detectNewListings e t oldSymbols newSymbols x))) =
     (if n \<in> normalizeSymbol ` set oldSymbols then 0
      else length (filter (\<lambda>s. normalizeSymbol s = n) newSymbols))
   \<and> (a \<noteq> b \<and> normalizeSymbol a = normalizeSymbol b
        \<and> normalizeSymbol a \<notin> normalizeSymbol ` set oldSymbols \<longrightarrow>
      map symbol (fst (detectNewListings e t oldSymbols [a, b] x)) = [a, b])
   \<and> map symbol (fst (detectNewListings e t [] [''BTC-USD'', ''BTC_USD''] x)) =
       [''BTC-USD'', ''BTC_USD'']"
proof -
  let ?d = "fst (detectNewListings e t oldSymbols newSymbols x)"
  have "length (filter (\<lambda>l. normalizeSymbol (symbol l) = n) ?d) =
      length (filter (\<lambda>s. normalizeSymbol s = n) (map symbol ?d))"
    by (simp add: filter_map o_def)
  also have "\<dots> = length (filter (\<lambda>s. normalizeSymbol s = n)
      (filter (\<lambda>s. normalizeSymbol s \<notin> normalizeSymbol ` set oldSymbols) newSymbols))"
    by (simp only: map_symbol_detect)
  also have "\<dots> = (if n \<in> normalizeSymbol ` set oldSymbols then 0
      else length (filter (\<lambda>s. normalizeSymbol s = n) newSymbols))"
  proof (cases "n \<in> normalizeSymbol ` set oldSymbols")
    case True
    then have "filter (\<lambda>s. normalizeSymbol s = n)
        (filter (\<lambda>s. normalizeSymbol s \<notin> normalizeSymbol ` set oldSymbols) newSymbols) = []"
      by (auto simp add: filter_empty_conv)
    with True show ?thesis by simp
  next
    case False
    then have "filter (\<lambda>s. normalizeSymbol s = n)
        (filter (\<lambda>s. normalizeSymbol s \<notin> normalizeSymbol ` set oldSymbols) newSymbols) =
        filter (\<lambda>s. normalizeSymbol s = n) newSymbols"
      by (auto intro: filter_cong)
    with False show ?thesis by simp
  qed
  finally have count: "length (filter (\<lambda>l. normalizeSymbol (symbol l) = n) ?d) =
      (if n \<in> normalizeSymbol ` set oldSymbols then 0
       else length (filter (\<lambda>s. normalizeSymbol s = n) newSymbols))" .
  have pair: "map symbol (fst (detectNewListings e t oldSymbols [a, b] x)) = [a, b]"
    if "normalizeSymbol a = normalizeSymbol b"
      and "normalizeSymbol a \<notin> normalizeSymbol ` set oldSymbols"
    using that by (simp only: map_symbol_detect) simp
  have "map symbol (fst (detectNewListings e t [] [''BTC-USD'', ''BTC_USD''] x)) =
      [''BTC-USD'', ''BTC_USD'']"
    by (simp only: map_symbol_detect) simp
  with count pair show ?thesis
    by blast
qed

theorem detectNewListings_no_dedup_witness:
  "''BTC-USD'' \<noteq> ''BTC_USD'' \<and> normalizeSymbol ''BTC-USD'' = normalizeSymbol ''BTC_USD''
   \<and> normalizeSymbol ''BTC-USD'' \<notin> normalizeSymbol ` set [''ETH-USD'']
   \<and> map symbol (fst (detectNewListings exampleEnv 0 [''ETH-USD''] [''BTC-USD'', ''BTC_USD''] ''Coinbase'')) =
       [''BTC-USD'', ''BTC_USD'']"
proof -
  have h: "''BTC-USD'' \<noteq> ''BTC_USD'' \<and> normalizeSymbol ''BTC-USD'' = normalizeSymbol ''BTC_USD''
      \<and> normalizeSymbol ''BTC-USD'' \<notin> normalizeSymbol ` set [''ETH-USD'']"
    by (simp add: normalizeSymbol_def isSeparator_def toUpperCase_char_def)
  with detectNewListings_no_dedup
    [of _ exampleEnv 0 "[''ETH-USD'']" _ "''Coinbase''" "''BTC-USD''" "''BTC_USD''"]
  show ?thesis
    by blast
qed

section \<open>Properties of the retention pruner\<close>

lemma MakeDate_back:
  "MakeDate (Day t - n) (TimeWithinDay t) = t - n * msPerDay"
  by (simp add: MakeDate_def Day_def TimeWithinDay_def algebra_simps)

lemma cutoffDate_local:
  "cutoffDate e now = UTC e (LocalTime e now - RETENTION_DAYS * msPerDay)"
  by (simp add: cutoffDate_def Let_def MakeDate_back)

lemma cutoffDate_same_offset:
  assumes "LocalTZA e (LocalTime e now - RETENTION_DAYS * msPerDay) False = LocalTZA e now True"
  shows "cutoffDate e now = now - RETENTION_DAYS * msPerDay"
  using assms by (simp add: cutoffDate_local UTC_def) (simp add: LocalTime_def)

lemma date_ge_iff:
  "date_ge d cutoff \<longleftrightarrow> (\<exists>t. d = Some t \<and> cutoff \<le> t)"
  by (cases d) (simp_all add: date_ge_def)

lemma cleanOldListings_filter:
  "fst (cleanOldListings e t ls) =
     filter (\<lambda>l. date_ge (parseDate e (detectedAt l)) (cutoffDate e (clock e t))) ls"
  by (simp add: cleanOldListings_def Let_def)

lemma cleanOldListings_member:
  "l \<in> set (fst (cleanOldListings e t ls)) \<longleftrightarrow>
     l \<in> set ls \<and> (\<exists>d. parseDate e (detectedAt l) = Some d \<and> cutoffDate e (clock e t) \<le> d)"
  by (simp add: cleanOldListings_filter date_ge_iff)

section \<open>Properties of the run\<close>

lemma fetchAndDetect_result:
  "fst (fetchAndDetect e n f old st) = (case f of Inr r \<Rightarrow> r | Inl err \<Rightarrow> old)"
  by (simp add: fetchAndDetect_def split: prod.splits sum.splits)

lemma fetchAndDetect_errs:
  "fst (snd (fetchAndDetect e n f old st)) =
     fst st @ (case f of Inr r \<Rightarrow> [] | Inl err \<Rightarrow> [n @ '': '' @ err])"
  by (simp add: fetchAndDetect_def split: prod.splits sum.splits)

lemma fetchAll_results:
  "fst (fetchAll e old t) =
     \<lparr>binance = (case fetchBinance e of Inr r \<Rightarrow> r | Inl err \<Rightarrow> binance old),
      coinbase = (case fetchCoinbase e of Inr r \<Rightarrow> r | Inl err \<Rightarrow> coinbase old),
      bybit = (case fetchBybit e of Inr r \<Rightarrow> r | Inl err \<Rightarrow> bybit old),
      upbit = (case fetchUpbit e of Inr r \<Rightarrow> r | Inl err \<Rightarrow> upbit old),
      okx = (case fetchOKX e of Inr r \<Rightarrow> r | Inl err \<Rightarrow> okx old),
      kraken = (case fetchKraken e of Inr r \<Rightarrow> r | Inl err \<Rightarrow> kraken old)\<rparr>"
  by (simp add: fetchAll_def case_prod_unfold fetchAndDetect_result)

lemma fetchAll_errs:
  "fst (snd (fetchAll e old t)) =
     (case fetchBinance e of Inr r \<Rightarrow> [] | Inl err \<Rightarrow> [''Binance'' @ '': '' @ err]) @
     (case fetchCoinbase e of Inr r \<Rightarrow> [] | Inl err \<Rightarrow> [''Coinbase'' @ '': '' @ err]) @
     (case fetchBybit e of Inr r \<Rightarrow> [] | Inl err \<Rightarrow> [''Bybit'' @ '': '' @ err]) @
     (case fetchUpbit e of Inr r \<Rightarrow> [] | Inl err \<Rightarrow> [''Upbit'' @ '': '' @ err]) @
     (case fetchOKX e of Inr r \<Rightarrow> [] | Inl err \<Rightarrow> [''OKX'' @ '': '' @ err]) @
     (case fetchKraken e of Inr r \<Rightarrow> [] | Inl err \<Rightarrow> [''Kraken'' @ '': '' @ err])"
  by (simp add: fetchAll_def case_prod_unfold fetchAndDetect_errs)

lemma length_case_sum:
  "length (case f of Inr r \<Rightarrow> [] | Inl err \<Rightarrow> [g err]) = (if isl f then 1 else 0)"
  by (cases f) simp_all

lemma fetchAll_errs_length:
  "length (fst (snd (fetchAll e old t))) = failedFetches e"
  by (simp only: fetchAll_errs length_append length_case_sum failedFetches_def) simp

lemma failedFetches_le: "failedFetches e \<le> 6"
  unfolding failedFetches_def
  by (rule order_trans [OF length_filter_le]) simp

lemma tryBody_Inr:
  assumes "tryBody e startTime w1 = (Inr u, w')"
  shows "\<exists>oldListings newListingsData results errs allNewListings t2 lastOk.
    cexListingsFile w1 = Inr oldListings
    \<and> newListingsFile w1 = Inr newListingsData
    \<and> fetchAll e (exchanges oldListings) (ticks w1) = (results, errs, allNewListings, t2)
    \<and> (errs = [] \<longrightarrow> lastOk = Some startTime)
    \<and> (errs \<noteq> [] \<longrightarrow> (\<exists>prev. statusFile w1 = Inr prev \<and> lastOk = lastSuccessfulRun prev))
    \<and> cexListingsFile w' =
        Inr \<lparr>lastUpdated = Some (toISOString e (clock e t2)), exchanges = results\<rparr>
    \<and> newListingsFile w' =
        Inr \<lparr>lastChecked = Some (toISOString e (clock e (Suc (Suc t2)))),
             listings = fst (cleanOldListings e (Suc t2)
               (listings newListingsData @ allNewListings))\<rparr>
    \<and> statusFile w' =
        Inr \<lparr>lastRun = Some startTime, lastSuccessfulRun = lastOk,
             status = statusTag errs, errors = errs\<rparr>
    \<and> written w' = written w1 @ [FILES_cexListings, FILES_newListings, FILES_status]
    \<and> ticks w' = Suc (Suc (Suc t2))"
  using assms
  unfolding tryBody_def readJSON_def writeJSON_cexListings_def writeJSON_newListings_def
    writeJSON_status_def writeJSON_def cleanOldListings_def Let_def
  by (auto split: sum.splits prod.splits option.splits if_splits)

lemma updateListings_Inr:
  assumes "updateListings e w = (Inr u, w')"
  shows "tryBody e (toISOString e (clock e (ticks w))) (w\<lparr>ticks := Suc (ticks w)\<rparr>) = (Inr u, w')"
  using assms
  unfolding updateListings_def Let_def
  by (auto split: sum.splits prod.splits)

lemma updateListings_normal:
  assumes "updateListings e w = (Inr u, w')"
  obtains oldListings newListingsData results errs allNewListings t2 lastOk where
    "cexListingsFile w = Inr oldListings"
    and "newListingsFile w = Inr newListingsData"
    and "fetchAll e (exchanges oldListings) (Suc (ticks w)) = (results, errs, allNewListings, t2)"
    and "errs = [] \<Longrightarrow> lastOk = Some (toISOString e (clock e (ticks w)))"
    and "errs \<noteq> [] \<Longrightarrow> \<exists>prev. statusFile w = Inr prev \<and> lastOk = lastSuccessfulRun prev"
    and "cexListingsFile w' =
        Inr \<lparr>lastUpdated = Some (toISOString e (clock e t2)), exchanges = results\<rparr>"
    and "newListingsFile w' =
        Inr \<lparr>lastChecked = Some (toISOString e (clock e (Suc (Suc t2)))),
             listings = fst (cleanOldListings e (Suc t2)
               (listings newListingsData @ allNewListings))\<rparr>"
    and "statusFile w' =
        Inr \<lparr>lastRun = Some (toISOString e (clock e (ticks w))), lastSuccessfulRun = lastOk,
             status = statusTag errs, errors = errs\<rparr>"
    and "written w' = written w @ [FILES_cexListings, FILES_newListings, FILES_status]"
    and "ticks w' = Suc (Suc (Suc t2))"
proof -
  from tryBody_Inr [OF updateListings_Inr [OF assms]]
  obtain oldListings newListingsData results errs allNewListings t2 lastOk where
    "cexListingsFile (w\<lparr>ticks := Suc (ticks w)\<rparr>) = Inr oldListings
    \<and> newListingsFile (w\<lparr>ticks := Suc (ticks w)\<rparr>) = Inr newListingsData
    \<and> fetchAll e (exchanges oldListings) (ticks (w\<lparr>ticks := Suc (ticks w)\<rparr>)) =
        (results, errs, allNewListings, t2)
    \<and> (errs = [] \<longrightarrow> lastOk = Some (toISOString e (clock e (ticks w))))
    \<and> (errs \<noteq> [] \<longrightarrow>
        (\<exists>prev. statusFile (w\<lparr>ticks := Suc (ticks w)\<rparr>) = Inr prev
           \<and> lastOk = lastSuccessfulRun prev))
    \<and> cexListingsFile w' =
        Inr \<lparr>lastUpdated = Some (toISOString e (clock e t2)), exchanges = results\<rparr>
    \<and> newListingsFile w' =
        Inr \<lparr>lastChecked = Some (toISOString e (clock e (Suc (Suc t2)))),
             listings = fst (cleanOldListings e (Suc t2)
               (listings newListingsData @ allNewListings))\<rparr>
    \<and> statusFile w' =
        Inr \<lparr>lastRun = Some (toISOString e (clock e (ticks w))), lastSuccessfulRun = lastOk,
             status = statusTag errs, errors = errs\<rparr>
    \<and> written w' = written (w\<lparr>ticks := Suc (ticks w)\<rparr>) @
        [FILES_cexListings, FILES_newListings, FILES_status]
    \<and> ticks w' = Suc (Suc (Suc t2))"
    by (elim exE)
  then show thesis
    by (intro that [of oldListings newListingsData results errs allNewListings t2 lastOk])
      simp_all
qed

lemma statusTag_cases:
  "statusTag errs =
     (if length errs = 0 then success
      else if length errs < 6 then partial_success else failed)"
  by (simp add: statusTag_def)

lemma example_run: "updateListings exampleEnv exampleWorld = (Inr (), exampleAfter)"
  by code_simp

lemma example_failedFetches: "failedFetches exampleEnv = 2"
  by (simp add: failedFetches_def exampleEnv_def)

section \<open>Status and snapshot of a run that returns normally\<close>

text \<open>
  C1. When a run returns normally (the fetch loop completed and nothing outside it
  failed), the status document it wrote lists one error per failed fetch, at most six, and
  its tag depends on that number alone: \<open>success\<close> for none, \<open>partial_success\<close> for one
  to five, \<open>failed\<close> for six.
\<close>

theorem updateListings_status_tag:
  assumes "updateListings e w = (Inr u, w')"
  shows "\<exists>st. statusFile w' = Inr st
    \<and> length (errors st) = failedFetches e
    \<and> length (errors st) \<le> 6
    \<and> status st =
        (if length (errors st) = 0 then success
         else if length (errors st) < 6 then partial_success else failed)
    \<and> (status st = success \<longleftrightarrow> length (errors st) = 0)
    \<and> (status st = partial_success \<longleftrightarrow> 1 \<le> length (errors st) \<and> length (errors st) \<le> 5)
    \<and> (status st = failed \<longleftrightarrow> length (errors st) = 6)"
  using assms
proof (rule updateListings_normal)
  fix oldListings :: ExchangeListings
  fix results errs allNewListings t2 lastOk
  assume fetched: "fetchAll e (exchanges oldListings) (Suc (ticks w)) =
      (results, errs, allNewListings, t2)"
    and st: "statusFile w' =
      Inr \<lparr>lastRun = Some (toISOString e (clock e (ticks w))), lastSuccessfulRun = lastOk,
           status = statusTag errs, errors = errs\<rparr>"
  from fetched have len: "length errs = failedFetches e"
    using fetchAll_errs_length [of e "exchanges oldListings" "Suc (ticks w)"]
    by simp
  with failedFetches_le [of e] have le: "length errs \<le> 6"
    by simp
  show ?thesis
  proof (intro exI conjI)
    show "statusFile w' =
      Inr \<lparr>lastRun = Some (toISOString e (clock e (ticks w))), lastSuccessfulRun = lastOk,
           status = statusTag errs, errors = errs\<rparr>"
      by (rule st)
  qed (use len le in \<open>auto simp add: statusTag_cases\<close>)
qed

theorem updateListings_status_tag_witness:
  "updateListings exampleEnv exampleWorld = (Inr (), exampleAfter)
   \<and> (\<exists>st. statusFile exampleAfter = Inr st \<and> length (errors st) = 2
        \<and> status st = partial_success)"
proof -
  from updateListings_status_tag [OF example_run]
  obtain st where "statusFile exampleAfter = Inr st"
    and "length (errors st) = failedFetches exampleEnv"
    and "status st = partial_success \<longleftrightarrow> 1 \<le> length (errors st) \<and> length (errors st) \<le> 5"
    by blast
  then have "statusFile exampleAfter = Inr st \<and> length (errors st) = 2
      \<and> status st = partial_success"
    by (simp add: example_failedFetches)
  with example_run show ?thesis
    by blast
qed

text \<open>
  C4. In the status document written by a run that returns normally,
  \<open>lastRun\<close> is the start time of the run; \<open>lastSuccessfulRun\<close> is that start time when no
  fetch failed, and otherwise it is the value of the status document read from disk,
  copied unchanged. So it equals the start time exactly when no fetch failed or the
  value on disk already was that start time.
\<close>

theorem updateListings_lastSuccessfulRun:
  assumes "updateListings e w = (Inr u, w')"
  shows "\<exists>st. statusFile w' = Inr st
    \<and> length (errors st) = failedFetches e
    \<and> lastRun st = Some (toISOString e (clock e (ticks w)))
    \<and> (errors st = [] \<longrightarrow> lastSuccessfulRun st = Some (toISOString e (clock e (ticks w))))
    \<and> (errors st \<noteq> [] \<longrightarrow>
        (\<exists>prev. statusFile w = Inr prev \<and> lastSuccessfulRun st = lastSuccessfulRun prev))
    \<and> (lastSuccessfulRun st = Some (toISOString e (clock e (ticks w))) \<longleftrightarrow>
        errors st = [] \<or>
        (\<exists>prev. statusFile w = Inr prev
           \<and> lastSuccessfulRun prev = Some (toISOString e (clock e (ticks w)))))"
  using assms
proof (rule updateListings_normal)
  fix oldListings :: ExchangeListings
  fix results errs allNewListings t2 lastOk
  assume fetched: "fetchAll e (exchanges oldListings) (Suc (ticks w)) =
      (results, errs, allNewListings, t2)"
    and ok: "errs = [] \<Longrightarrow> lastOk = Some (toISOString e (clock e (ticks w)))"
    and failed: "errs \<noteq> [] \<Longrightarrow> \<exists>prev. statusFile w = Inr prev \<and> lastOk = lastSuccessfulRun prev"
    and st: "statusFile w' =
      Inr \<lparr>lastRun = Some (toISOString e (clock e (ticks w))), lastSuccessfulRun = lastOk,
           status = statusTag errs, errors = errs\<rparr>"
  from fetched have len: "length errs = failedFetches e"
    using fetchAll_errs_length [of e "exchanges oldListings" "Suc (ticks w)"]
    by simp
  show ?thesis
  proof (cases "errs = []")
    case True
    with ok have "lastOk = Some (toISOString e (clock e (ticks w)))"
      by simp
    with st True len show ?thesis
      by simp
  next
    case False
    with failed obtain prev where "statusFile w = Inr prev"
      and "lastOk = lastSuccessfulRun prev"
      by blast
    with st False len show ?thesis
      by simp
  qed
qed

theorem updateListings_lastSuccessfulRun_witness:
  "updateListings exampleEnv exampleWorld = (Inr (), exampleAfter)
   \<and> (\<exists>st prev. statusFile exampleAfter = Inr st \<and> errors st \<noteq> []
        \<and> statusFile exampleWorld = Inr prev
        \<and> lastSuccessfulRun st = lastSuccessfulRun prev)"
proof -
  from updateListings_lastSuccessfulRun [OF example_run]
  obtain st where st: "statusFile exampleAfter = Inr st"
    and len: "length (errors st) = failedFetches exampleEnv"
    and copied: "errors st \<noteq> [] \<longrightarrow>
      (\<exists>prev. statusFile exampleWorld = Inr prev \<and> lastSuccessfulRun st = lastSuccessfulRun prev)"
    by blast
  from len have "errors st \<noteq> []"
    by (auto simp add: example_failedFetches)
  with st copied example_run show ?thesis
    by blast
qed

text \<open>
  C4 as stated, with \<open>lastSuccessfulRun\<close> equal to the start time only when no fetch
  failed, fails when the status document read already holds the start time of this run:
  two fetches fail and the value copied forward is that start time.
\<close>

theorem updateListings_lastSuccessfulRun_counterexample:
  "toISOString exampleEnv (clock exampleEnv (ticks exampleWorld)) = ''2023-11-14T22:13:20.000Z''
   \<and> fst (updateListings exampleEnv
        (exampleWorld\<lparr>statusFile := Inr
           (exampleStatus\<lparr>lastSuccessfulRun := Some ''2023-11-14T22:13:20.000Z''\<rparr>)\<rparr>)) = Inr ()
   \<and> statusFile (snd (updateListings exampleEnv
        (exampleWorld\<lparr>statusFile := Inr
           (exampleStatus\<lparr>lastSuccessfulRun := Some ''2023-11-14T22:13:20.000Z''\<rparr>)\<rparr>))) =
       Inr \<lparr>lastRun = Some ''2023-11-14T22:13:20.000Z'',
            lastSuccessfulRun = Some ''2023-11-14T22:13:20.000Z'',
            status = partial_success,
            errors = [''Coinbase: Error: Invalid Coinbase API response'',
                      ''OKX: FetchError: request failed'']\<rparr>"
  by code_simp

text \<open>
  C5. In a run that returns normally, whichever fetches fail, the snapshot document
  written holds for each exchange the freshly fetched list when its fetch succeeded and
  the list of the snapshot read at the start when it failed, and the status document
  lists one error per failed fetch; with two failed fetches the tag is
  \<open>partial_success\<close> and there are two errors.
\<close>

theorem updateListings_snapshot:
  assumes "updateListings e w = (Inr u, w')"
  shows "\<exists>old new st. cexListingsFile w = Inr old \<and> cexListingsFile w' = Inr new
    \<and> statusFile w' = Inr st
    \<and> binance (exchanges new) =
        (case fetchBinance e of Inr r \<Rightarrow> r | Inl err \<Rightarrow> binance (exchanges old))
    \<and> coinbase (exchanges new) =
        (case fetchCoinbase e of Inr r \<Rightarrow> r | Inl err \<Rightarrow> coinbase (exchanges old))
    \<and> bybit (exchanges new) =
        (case fetchBybit e of Inr r \<Rightarrow> r | Inl err \<Rightarrow> bybit (exchanges old))
    \<and> upbit (exchanges new) =
        (case fetchUpbit e of Inr r \<Rightarrow> r | Inl err \<Rightarrow> upbit (exchanges old))
    \<and> okx (exchanges new) =
        (case fetchOKX e of Inr r \<Rightarrow> r | Inl err \<Rightarrow> okx (exchanges old))
    \<and> kraken (exchanges new) =
        (case fetchKraken e of Inr r \<Rightarrow> r | Inl err \<Rightarrow> kraken (exchanges old))
    \<and> length (errors st) = failedFetches e
    \<and> (failedFetches e = 2 \<longrightarrow> status st = partial_success \<and> length (errors st) = 2)"
  using assms
proof (rule updateListings_normal)
  fix oldListings :: ExchangeListings
  fix results errs allNewListings t2 lastOk
  assume old: "cexListingsFile w = Inr oldListings"
    and fetched: "fetchAll e (exchanges oldListings) (Suc (ticks w)) =
      (results, errs, allNewListings, t2)"
    and new: "cexListingsFile w' =
      Inr \<lparr>lastUpdated = Some (toISOString e (clock e t2)), exchanges = results\<rparr>"
    and st: "statusFile w' =
      Inr \<lparr>lastRun = Some (toISOString e (clock e (ticks w))), lastSuccessfulRun = lastOk,
           status = statusTag errs, errors = errs\<rparr>"
  from fetched have len: "length errs = failedFetches e"
    using fetchAll_errs_length [of e "exchanges oldListings" "Suc (ticks w)"]
    by simp
  from fetched have res: "results = fst (fetchAll e (exchanges oldListings) (Suc (ticks w)))"
    by simp
  show ?thesis
  proof (intro exI conjI)
    show "cexListingsFile w = Inr oldListings"
      by (rule old)
    show "cexListingsFile w' =
      Inr \<lparr>lastUpdated = Some (toISOString e (clock e t2)), exchanges = results\<rparr>"
      by (rule new)
    show "statusFile w' =
      Inr \<lparr>lastRun = Some (toISOString e (clock e (ticks w))), lastSuccessfulRun = lastOk,
           status = statusTag errs, errors = errs\<rparr>"
      by (rule st)
  qed (use len in \<open>simp_all add: res fetchAll_results statusTag_cases\<close>)
qed

theorem updateListings_snapshot_witness:
  "updateListings exampleEnv exampleWorld = (Inr (), exampleAfter)
   \<and> failedFetches exampleEnv = 2
   \<and> (\<exists>old new st. cexListingsFile exampleWorld = Inr old
        \<and> cexListingsFile exampleAfter = Inr new \<and> statusFile exampleAfter = Inr st
        \<and> binance (exchanges new) = [''BTCUSDT'', ''ETHUSDT'']
        \<and> coinbase (exchanges new) = coinbase (exchanges old)
        \<and> okx (exchanges new) = okx (exchanges old)
        \<and> status st = partial_success \<and> length (errors st) = 2)"
proof -
  from updateListings_snapshot [OF example_run]
  obtain old new st where "cexListingsFile exampleWorld = Inr old"
    and "cexListingsFile exampleAfter = Inr new" and "statusFile exampleAfter = Inr st"
    and "binance (exchanges new) =
        (case fetchBinance exampleEnv of Inr r \<Rightarrow> r | Inl err \<Rightarrow> binance (exchanges old))"
    and "coinbase (exchanges new) =
        (case fetchCoinbase exampleEnv of Inr r \<Rightarrow> r | Inl err \<Rightarrow> coinbase (exchanges old))"
    and "okx (exchanges new) =
        (case fetchOKX exampleEnv of Inr r \<Rightarrow> r | Inl err \<Rightarrow> okx (exchanges old))"
    and "failedFetches exampleEnv = 2 \<longrightarrow> status st = partial_success \<and> length (errors st) = 2"
    by blast
  then have "cexListingsFile exampleWorld = Inr old
        \<and> cexListingsFile exampleAfter = Inr new \<and> statusFile exampleAfter = Inr st
        \<and> binance (exchanges new) = [''BTCUSDT'', ''ETHUSDT'']
        \<and> coinbase (exchanges new) = coinbase (exchanges old)
        \<and> okx (exchanges new) = okx (exchanges old)
        \<and> status st = partial_success \<and> length (errors st) = 2"
    by (simp add: example_failedFetches) (simp add: exampleEnv_def)
  with example_run example_failedFetches show ?thesis
    by blast
qed

section \<open>Retention of the listing log\<close>

lemma updateListings_log:
  assumes "updateListings e w = (Inr u, w')"
  shows "\<exists>doc ls. newListingsFile w' = Inr doc
    \<and> listings doc = fst (cleanOldListings e (ticks w' - 2) ls)"
  using assms
proof (rule updateListings_normal)
  fix newListingsData :: NewListingsData
  fix allNewListings t2
  assume "newListingsFile w' =
        Inr \<lparr>lastChecked = Some (toISOString e (clock e (Suc (Suc t2)))),
             listings = fst (cleanOldListings e (Suc t2)
               (listings newListingsData @ allNewListings))\<rparr>"
    and "ticks w' = Suc (Suc (Suc t2))"
  then show ?thesis
    by simp (rule exI, rule refl)
qed

lemma tryBody_log_cong:
  assumes "newListingsFile w1 = Inr lg"
    and "\<And>k a. cleanOldListings e k (listings lg' @ a) = cleanOldListings e k (listings lg @ a)"
    and "tryBody e s w1 = (Inr u, w')"
  shows "tryBody e s (w1\<lparr>newListingsFile := Inr lg'\<rparr>) = (Inr u, w')"
  using assms(1,3)
  unfolding tryBody_def readJSON_def writeJSON_cexListings_def writeJSON_newListings_def
    writeJSON_status_def writeJSON_def Let_def
  by (auto simp add: assms(2) split: sum.splits prod.splits option.splits if_splits)

lemma updateListings_log_cong:
  assumes "newListingsFile w = Inr lg"
    and "\<And>k a. cleanOldListings e k (listings lg' @ a) = cleanOldListings e k (listings lg @ a)"
    and "updateListings e w = (Inr u, w')"
  shows "updateListings e (w\<lparr>newListingsFile := Inr lg'\<rparr>) = (Inr u, w')"
proof -
  from assms(1) have "newListingsFile (w\<lparr>ticks := Suc (ticks w)\<rparr>) = Inr lg"
    by simp
  from tryBody_log_cong [OF this assms(2) updateListings_Inr [OF assms(3)]]
  have body: "tryBody e (toISOString e (clock e (ticks w)))
      (w\<lparr>ticks := Suc (ticks w), newListingsFile := Inr lg'\<rparr>) = (Inr u, w')" .
  have swap: "w\<lparr>newListingsFile := Inr lg', ticks := Suc (ticks w)\<rparr> =
      w\<lparr>ticks := Suc (ticks w), newListingsFile := Inr lg'\<rparr>"
    by simp
  show ?thesis
    by (simp add: updateListings_def Let_def swap body)
qed

text \<open>
  C3. The pruner returns, in the order of its input, exactly the events whose
  \<open>detectedAt\<close> parses to a time not before the cutoff. The cutoff is thirty days before
  now on the local calendar: the local time of now, moved back by thirty times 24 hours
  and read again as local time. Where the local offset at that cutoff is the offset at
  now (always so in UTC), the cutoff is now minus thirty times 24 hours, its bound is
  inclusive, an event 29 days old is kept and one 31 days old is dropped. Every entry of
  the listing log written by a run that returns normally parses to a time not before the
  cutoff of that run, so under the same condition on the offset its age at the time of
  pruning is at most thirty days.
\<close>

theorem cleanOldListings_retention:
  "fst (cleanOldListings e t ls) =
     filter (\<lambda>l. case parseDate e (detectedAt l) of None \<Rightarrow> False
                 | Some d \<Rightarrow> cutoffDate e (clock e t) \<le> d) ls
   \<and> cutoffDate e (clock e t) = UTC e (LocalTime e (clock e t) - 30 * 86400000)
   \<and> (LocalTZA e (LocalTime e (clock e t) - 30 * 86400000) False = LocalTZA e (clock e t) True
        \<longrightarrow>
        cutoffDate e (clock e t) = clock e t - 30 * 86400000
        \<and> fst (cleanOldListings e t ls) =
            filter (\<lambda>l. case parseDate e (detectedAt l) of None \<Rightarrow> False
                        | Some d \<Rightarrow> clock e t - 30 * 86400000 \<le> d) ls
        \<and> (l \<in> set ls \<and> parseDate e (detectedAt l) = Some (clock e t - 30 * 86400000)
             \<longrightarrow> l \<in> set (fst (cleanOldListings e t ls)))
        \<and> (l \<in> set ls \<and> parseDate e (detectedAt l) = Some (clock e t - 29 * 86400000)
             \<longrightarrow> l \<in> set (fst (cleanOldListings e t ls)))
        \<and> (parseDate e (detectedAt l) = Some (clock e t - 31 * 86400000)
             \<longrightarrow> l \<notin> set (fst (cleanOldListings e t ls))))
   \<and> (updateListings e w = (Inr u, w') \<longrightarrow>
        (\<exists>doc. newListingsFile w' = Inr doc
           \<and> (\<forall>l' \<in> set (listings doc). \<exists>d. parseDate e (detectedAt l') = Some d
                \<and> cutoffDate e (clock e (ticks w' - 2)) \<le> d
                \<and> (LocalTZA e (LocalTime e (clock e (ticks w' - 2)) - 30 * 86400000) False =
                     LocalTZA e (clock e (ticks w' - 2)) True
                   \<longrightarrow> clock e (ticks w' - 2) - d \<le> 30 * 86400000))))"
proof -
  have days: "RETENTION_DAYS * msPerDay = 30 * 86400000"
    by (simp add: RETENTION_DAYS_def msPerDay_def)
  have flt: "fst (cleanOldListings e t ls) =
     filter (\<lambda>l. case parseDate e (detectedAt l) of None \<Rightarrow> False
                 | Some d \<Rightarrow> cutoffDate e (clock e t) \<le> d) ls"
    by (simp add: cleanOldListings_filter date_ge_def)
  have loc: "cutoffDate e (clock e k) = UTC e (LocalTime e (clock e k) - 30 * 86400000)" for k
    using cutoffDate_local [of e "clock e k"] by (simp only: days)
  have same: "cutoffDate e (clock e k) = clock e k - 30 * 86400000"
    if "LocalTZA e (LocalTime e (clock e k) - 30 * 86400000) False = LocalTZA e (clock e k) True"
    for k
    using cutoffDate_same_offset [of e "clock e k"] that by (simp only: days)
  have fixed: "cutoffDate e (clock e t) = clock e t - 30 * 86400000
        \<and> fst (cleanOldListings e t ls) =
            filter (\<lambda>l. case parseDate e (detectedAt l) of None \<Rightarrow> False
                        | Some d \<Rightarrow> clock e t - 30 * 86400000 \<le> d) ls
        \<and> (l \<in> set ls \<and> parseDate e (detectedAt l) = Some (clock e t - 30 * 86400000)
             \<longrightarrow> l \<in> set (fst (cleanOldListings e t ls)))
        \<and> (l \<in> set ls \<and> parseDate e (detectedAt l) = Some (clock e t - 29 * 86400000)
             \<longrightarrow> l \<in> set (fst (cleanOldListings e t ls)))
        \<and> (parseDate e (detectedAt l) = Some (clock e t - 31 * 86400000)
             \<longrightarrow> l \<notin> set (fst (cleanOldListings e t ls)))"
    if "LocalTZA e (LocalTime e (clock e t) - 30 * 86400000) False = LocalTZA e (clock e t) True"
  proof -
    from same [OF that] have c: "cutoffDate e (clock e t) = clock e t - 30 * 86400000" .
    then show ?thesis
      by (simp add: cleanOldListings_member) (simp add: flt c cong: option.case_cong)
  qed
  have run: "\<exists>doc. newListingsFile w' = Inr doc
           \<and> (\<forall>l' \<in> set (listings doc). \<exists>d. parseDate e (detectedAt l') = Some d
                \<and> cutoffDate e (clock e (ticks w' - 2)) \<le> d
                \<and> (LocalTZA e (LocalTime e (clock e (ticks w' - 2)) - 30 * 86400000) False =
                     LocalTZA e (clock e (ticks w' - 2)) True
                   \<longrightarrow> clock e (ticks w' - 2) - d \<le> 30 * 86400000))"
    if "updateListings e w = (Inr u, w')"
  proof -
    from updateListings_log [OF that] obtain doc ls' where
      doc: "newListingsFile w' = Inr doc"
      and ls: "listings doc = fst (cleanOldListings e (ticks w' - 2) ls')"
      by blast
    have "\<exists>d. parseDate e (detectedAt l') = Some d
        \<and> cutoffDate e (clock e (ticks w' - 2)) \<le> d
        \<and> (LocalTZA e (LocalTime e (clock e (ticks w' - 2)) - 30 * 86400000) False =
             LocalTZA e (clock e (ticks w' - 2)) True
           \<longrightarrow> clock e (ticks w' - 2) - d \<le> 30 * 86400000)"
      if "l' \<in> set (listings doc)" for l'
    proof -
      from that ls obtain d where d: "parseDate e (detectedAt l') = Some d"
        and ge: "cutoffDate e (clock e (ticks w' - 2)) \<le> d"
        by (auto simp add: cleanOldListings_member)
      have "clock e (ticks w' - 2) - d \<le> 30 * 86400000"
        if "LocalTZA e (LocalTime e (clock e (ticks w' - 2)) - 30 * 86400000) False =
             LocalTZA e (clock e (ticks w' - 2)) True"
        using same [OF that] ge by simp
      with d ge show ?thesis
        by blast
    qed
    with doc show ?thesis
      by blast
  qed
  from flt loc [of t] fixed run show ?thesis
    by blast
qed

theorem cleanOldListings_retention_witness:
  "LocalTZA exampleEnv (LocalTime exampleEnv (clock exampleEnv 0) - 30 * 86400000) False =
     LocalTZA exampleEnv (clock exampleEnv 0) True
   \<and> parseDate exampleEnv (detectedAt
        \<lparr>exchange = ''Bybit'', symbol = ''BTCUSDT'', detectedAt = ''2023-10-15T22:13:20.000Z''\<rparr>) =
       Some (clock exampleEnv 0 - 30 * 86400000)
   \<and> cutoffDate exampleEnv (clock exampleEnv 0) = clock exampleEnv 0 - 30 * 86400000
   \<and> \<lparr>exchange = ''Bybit'', symbol = ''BTCUSDT'', detectedAt = ''2023-10-15T22:13:20.000Z''\<rparr>
       \<in> set (fst (cleanOldListings exampleEnv 0 exampleLog))
   \<and> updateListings exampleEnv exampleWorld = (Inr (), exampleAfter)
   \<and> (\<exists>d. parseDate exampleEnv (detectedAt
          \<lparr>exchange = ''Upbit'', symbol = ''KRW-BTC'', detectedAt = ''2023-10-16T22:13:20.000Z''\<rparr>) =
          Some d
        \<and> cutoffDate exampleEnv (clock exampleEnv (ticks exampleAfter - 2)) \<le> d)"
proof -
  let ?l = "\<lparr>exchange = ''Bybit'', symbol = ''BTCUSDT'', detectedAt = ''2023-10-15T22:13:20.000Z''\<rparr>"
  let ?k = "\<lparr>exchange = ''Upbit'', symbol = ''KRW-BTC'', detectedAt = ''2023-10-16T22:13:20.000Z''\<rparr>"
  have tz: "LocalTZA exampleEnv (LocalTime exampleEnv (clock exampleEnv 0) - 30 * 86400000) False =
      LocalTZA exampleEnv (clock exampleEnv 0) True"
    by (simp add: exampleEnv_def)
  have parsed: "parseDate exampleEnv (detectedAt ?l) = Some (clock exampleEnv 0 - 30 * 86400000)"
    by (simp add: exampleEnv_def exampleParse_def)
  have mem: "?l \<in> set exampleLog"
    by (simp add: exampleLog_def)
  from cleanOldListings_retention [of exampleEnv 0 exampleLog ?l] tz parsed mem
  have pruned: "cutoffDate exampleEnv (clock exampleEnv 0) = clock exampleEnv 0 - 30 * 86400000
    \<and> ?l \<in> set (fst (cleanOldListings exampleEnv 0 exampleLog))"
    by blast
  from cleanOldListings_retention [of exampleEnv _ _ _ exampleWorld "()" exampleAfter] example_run
  obtain doc where doc: "newListingsFile exampleAfter = Inr doc"
    and all: "\<forall>l' \<in> set (listings doc). \<exists>d. parseDate exampleEnv (detectedAt l') = Some d
      \<and> cutoffDate exampleEnv (clock exampleEnv (ticks exampleAfter - 2)) \<le> d"
    by blast
  from doc have "?k \<in> set (listings doc)"
    by (auto simp add: exampleAfter_def)
  with all have "\<exists>d. parseDate exampleEnv (detectedAt ?k) = Some d
      \<and> cutoffDate exampleEnv (clock exampleEnv (ticks exampleAfter - 2)) \<le> d"
    by blast
  with tz parsed pruned example_run show ?thesis
    by blast
qed

text \<open>
  C3 as stated, with thirty days of 24 hours, fails where the local offset changes
  inside the window. In New York on 2024-03-25T16:00Z the cutoff is 2024-02-24T17:00Z
  (noon local time on both days), so an event detected exactly thirty times 24 hours
  before now, at 2024-02-24T16:00Z, is dropped.
\<close>

theorem cleanOldListings_retention_counterexample:
  "parseDate newYorkEnv ''2024-02-24T16:00:00.000Z'' = Some (clock newYorkEnv 0 - 30 * 86400000)
   \<and> fst (cleanOldListings newYorkEnv 0
        [\<lparr>exchange = ''Binance'', symbol = ''ETHUSDT'',
          detectedAt = ''2024-02-24T16:00:00.000Z''\<rparr>]) = []"
  by code_simp

text \<open>
  C10. The pruner is total and never keeps an entry whose \<open>detectedAt\<close> does not parse:
  such an entry is absent from the result, the result is what it would be without the
  entry, and the listing log written by a run that returns normally holds only entries
  that parse. A run that returns normally on a prior log holding such an entry returns
  the same result and leaves the same documents as the run on the log without it, so the
  entry is neither kept nor reported.
\<close>

theorem cleanOldListings_invalid_date:
  "(parseDate e (detectedAt l) = None \<longrightarrow>
      l \<notin> set (fst (cleanOldListings e t ls))
      \<and> cleanOldListings e t (xs @ l # ys) = cleanOldListings e t (xs @ ys))
   \<and> (\<forall>l' \<in> set (fst (cleanOldListings e t ls)). parseDate e (detectedAt l') \<noteq> None)
   \<and> (updateListings e w = (Inr u, w') \<longrightarrow>
        (\<exists>doc. newListingsFile w' = Inr doc
           \<and> (\<forall>l' \<in> set (listings doc). parseDate e (detectedAt l') \<noteq> None)))
   \<and> (parseDate e (detectedAt l) = None \<and> newListingsFile w = Inr lg
        \<and> listings lg = xs @ l # ys \<and> updateListings e w = (Inr u, w') \<longrightarrow>
        updateListings e (w\<lparr>newListingsFile := Inr (lg\<lparr>listings := xs @ ys\<rparr>)\<rparr>) = (Inr u, w'))"
proof -
  have drop: "l \<notin> set (fst (cleanOldListings e t ls))
      \<and> cleanOldListings e t (xs @ l # ys) = cleanOldListings e t (xs @ ys)"
    if "parseDate e (detectedAt l) = None"
    using that by (simp add: cleanOldListings_member) (simp add: cleanOldListings_def date_ge_def)
  have valid: "parseDate e (detectedAt l') \<noteq> None"
    if "l' \<in> set (fst (cleanOldListings e k zs))" for l' k zs
    using that by (auto simp add: cleanOldListings_member)
  have run: "\<exists>doc. newListingsFile w' = Inr doc
      \<and> (\<forall>l' \<in> set (listings doc). parseDate e (detectedAt l') \<noteq> None)"
    if "updateListings e w = (Inr u, w')"
  proof -
    from updateListings_log [OF that] obtain doc zs where
      "newListingsFile w' = Inr doc"
      and "listings doc = fst (cleanOldListings e (ticks w' - 2) zs)"
      by blast
    with valid show ?thesis
      by metis
  qed
  have same: "updateListings e (w\<lparr>newListingsFile := Inr (lg\<lparr>listings := xs @ ys\<rparr>)\<rparr>) = (Inr u, w')"
    if none: "parseDate e (detectedAt l) = None" and lg: "newListingsFile w = Inr lg"
      and ls: "listings lg = xs @ l # ys" and ok: "updateListings e w = (Inr u, w')"
  proof (rule updateListings_log_cong [OF lg _ ok])
    fix k a
    from none show "cleanOldListings e k (listings (lg\<lparr>listings := xs @ ys\<rparr>) @ a) =
        cleanOldListings e k (listings lg @ a)"
      by (simp add: ls cleanOldListings_def date_ge_def)
  qed
  from drop valid [of _ t ls] run same show ?thesis
    by blast
qed

theorem cleanOldListings_invalid_date_witness:
  "parseDate exampleEnv (detectedAt
      \<lparr>exchange = ''OKX'', symbol = ''BTC-USDT'', detectedAt = ''yesterday''\<rparr>) = None
   \<and> \<lparr>exchange = ''OKX'', symbol = ''BTC-USDT'', detectedAt = ''yesterday''\<rparr> \<in> set exampleLog
   \<and> \<lparr>exchange = ''OKX'', symbol = ''BTC-USDT'', detectedAt = ''yesterday''\<rparr>
       \<notin> set (fst (cleanOldListings exampleEnv 0 exampleLog))
   \<and> updateListings exampleEnv exampleWorld = (Inr (), exampleAfter)
   \<and> (\<exists>doc. newListingsFile exampleAfter = Inr doc
        \<and> \<lparr>exchange = ''OKX'', symbol = ''BTC-USDT'', detectedAt = ''yesterday''\<rparr>
            \<notin> set (listings doc))"
proof -
  let ?bad = "\<lparr>exchange = ''OKX'', symbol = ''BTC-USDT'', detectedAt = ''yesterday''\<rparr>"
  have none: "parseDate exampleEnv (detectedAt ?bad) = None"
    by (simp add: exampleEnv_def exampleParse_def)
  have mem: "?bad \<in> set exampleLog"
    by (simp add: exampleLog_def)
  from cleanOldListings_invalid_date [of exampleEnv ?bad 0 exampleLog] none
  have gone: "?bad \<notin> set (fst (cleanOldListings exampleEnv 0 exampleLog))"
    by blast
  from cleanOldListings_invalid_date [of exampleEnv _ _ _ _ _ exampleWorld "()" exampleAfter]
    example_run
  obtain doc where doc: "newListingsFile exampleAfter = Inr doc"
    and all: "\<forall>l' \<in> set (listings doc). parseDate exampleEnv (detectedAt l') \<noteq> None"
    by blast
  from all none have "?bad \<notin> set (listings doc)"
    by blast
  with none mem gone example_run doc show ?thesis
    by blast
qed

section \<open>Failures outside the fetch loop\<close>

text \<open>
  C6. When loading the prior snapshot or the prior listing log fails, the status
  document can be read and the status write succeeds, the run writes the status document
  only: tag \<open>failed\<close>, the single error \<open>Critical:\<close> followed by the failure, and
  \<open>lastSuccessfulRun\<close> copied from the status document read; the snapshot and the listing
  log are left as they were and the failure is thrown again. More generally, whenever the
  body of the run fails and then the status document can be read and written, that same
  status document is written over the state the body left and the failure is thrown
  again.
\<close>

theorem updateListings_fatal:
  "((cexListingsFile w = Inl err \<or> (cexListingsFile w = Inr old \<and> newListingsFile w = Inl err))
      \<and> statusFile w = Inr prev \<and> writeError e (writes w) = None \<longrightarrow>
      updateListings e w =
        (Inl err,
         w\<lparr>statusFile := Inr
             \<lparr>lastRun = Some (toISOString e (clock e (ticks w))),
              lastSuccessfulRun = lastSuccessfulRun prev,
              status = failed, errors = [''Critical: '' @ err]\<rparr>,
           ticks := Suc (ticks w), writes := Suc (writes w),
           written := written w @ [FILES_status]\<rparr>))
   \<and> (tryBody e (toISOString e (clock e (ticks w))) (w\<lparr>ticks := Suc (ticks w)\<rparr>) = (Inl err, w2)
      \<and> statusFile w2 = Inr prev \<and> writeError e (writes w2) = None \<longrightarrow>
      updateListings e w =
        (Inl err,
         w2\<lparr>statusFile := Inr
             \<lparr>lastRun = Some (toISOString e (clock e (ticks w))),
              lastSuccessfulRun = lastSuccessfulRun prev,
              status = failed, errors = [''Critical: '' @ err]\<rparr>,
            writes := Suc (writes w2),
            written := written w2 @ [FILES_status]\<rparr>))"
proof -
  have handler: "updateListings e w =
        (Inl err,
         w2\<lparr>statusFile := Inr
             \<lparr>lastRun = Some (toISOString e (clock e (ticks w))),
              lastSuccessfulRun = lastSuccessfulRun prev,
              status = failed, errors = [''Critical: '' @ err]\<rparr>,
            writes := Suc (writes w2),
            written := written w2 @ [FILES_status]\<rparr>)"
    if "tryBody e (toISOString e (clock e (ticks w))) (w\<lparr>ticks := Suc (ticks w)\<rparr>) = (Inl err, w2)"
      and "statusFile w2 = Inr prev" and "writeError e (writes w2) = None"
    for w2
    using that
    by (simp add: updateListings_def Let_def readJSON_def writeJSON_status_def writeJSON_def)
  have load: "tryBody e s (w\<lparr>ticks := Suc (ticks w)\<rparr>) = (Inl err, w\<lparr>ticks := Suc (ticks w)\<rparr>)"
    if "cexListingsFile w = Inl err \<or> (cexListingsFile w = Inr old \<and> newListingsFile w = Inl err)"
    for s
    using that by (auto simp add: tryBody_def readJSON_def)
  have "updateListings e w =
        (Inl err,
         w\<lparr>statusFile := Inr
             \<lparr>lastRun = Some (toISOString e (clock e (ticks w))),
              lastSuccessfulRun = lastSuccessfulRun prev,
              status = failed, errors = [''Critical: '' @ err]\<rparr>,
           ticks := Suc (ticks w), writes := Suc (writes w),
           written := written w @ [FILES_status]\<rparr>)"
    if "cexListingsFile w = Inl err \<or> (cexListingsFile w = Inr old \<and> newListingsFile w = Inl err)"
      and "statusFile w = Inr prev" and "writeError e (writes w) = None"
    using handler [OF load [OF that(1)]] that(2,3) by simp
  with handler show ?thesis
    by blast
qed

theorem updateListings_fatal_witness:
  "cexListingsFile (exampleWorld\<lparr>cexListingsFile := Inl ''SyntaxError: Unexpected end of JSON input''\<rparr>) =
     Inl ''SyntaxError: Unexpected end of JSON input''
   \<and> statusFile (exampleWorld\<lparr>cexListingsFile := Inl ''SyntaxError: Unexpected end of JSON input''\<rparr>) =
       Inr exampleStatus
   \<and> updateListings exampleEnv
        (exampleWorld\<lparr>cexListingsFile := Inl ''SyntaxError: Unexpected end of JSON input''\<rparr>) =
       (Inl ''SyntaxError: Unexpected end of JSON input'',
        exampleWorld
          \<lparr>cexListingsFile := Inl ''SyntaxError: Unexpected end of JSON input'',
           statusFile := Inr
             \<lparr>lastRun = Some ''2023-11-14T22:13:20.000Z'',
              lastSuccessfulRun = Some ''2023-11-12T22:13:20.000Z'',
              status = failed,
              errors = [''Critical: SyntaxError: Unexpected end of JSON input'']\<rparr>,
           ticks := 1, writes := 1, written := [FILES_status]\<rparr>)"
proof -
  let ?w = "exampleWorld\<lparr>cexListingsFile := Inl ''SyntaxError: Unexpected end of JSON input''\<rparr>"
  have h: "cexListingsFile ?w = Inl ''SyntaxError: Unexpected end of JSON input''"
    "statusFile ?w = Inr exampleStatus" "writeError exampleEnv (writes ?w) = None"
    by (simp_all add: exampleWorld_def exampleEnv_def)
  have v: "toISOString exampleEnv (clock exampleEnv 0) = ''2023-11-14T22:13:20.000Z''"
    "lastSuccessfulRun exampleStatus = Some ''2023-11-12T22:13:20.000Z''"
    "ticks ?w = 0" "writes ?w = 0" "written ?w = []"
    by (simp_all add: exampleWorld_def exampleEnv_def exampleISO_def exampleStatus_def)
  from updateListings_fatal
    [of ?w "''SyntaxError: Unexpected end of JSON input''" _ exampleStatus exampleEnv] h
  have "updateListings exampleEnv ?w =
      (Inl ''SyntaxError: Unexpected end of JSON input'',
       ?w\<lparr>statusFile := Inr
             \<lparr>lastRun = Some (toISOString exampleEnv (clock exampleEnv (ticks ?w))),
              lastSuccessfulRun = lastSuccessfulRun exampleStatus,
              status = failed,
              errors = [''Critical: '' @ ''SyntaxError: Unexpected end of JSON input'']\<rparr>,
           ticks := Suc (ticks ?w), writes := Suc (writes ?w),
           written := written ?w @ [FILES_status]\<rparr>)"
    by blast
  then have "updateListings exampleEnv ?w =
      (Inl ''SyntaxError: Unexpected end of JSON input'',
        exampleWorld
          \<lparr>cexListingsFile := Inl ''SyntaxError: Unexpected end of JSON input'',
           statusFile := Inr
             \<lparr>lastRun = Some ''2023-11-14T22:13:20.000Z'',
              lastSuccessfulRun = Some ''2023-11-12T22:13:20.000Z'',
              status = failed,
              errors = [''Critical: SyntaxError: Unexpected end of JSON input'']\<rparr>,
           ticks := 1, writes := 1, written := [FILES_status]\<rparr>)"
    by (simp add: v)
  with h(1,2) show ?thesis
    by blast
qed

text \<open>
  C6 as stated fails for failures after the fetch loop. When the write of the listing log
  fails, the snapshot has already been written before the failed status is. When the
  failure is the read of the status document itself (two failed fetches, unreadable
  status document), the snapshot and the listing log are both written, the handler fails
  on the same read, no status document is written, and the read error is what the caller
  gets.
\<close>

theorem updateListings_fatal_counterexample:
  "fst (updateListings diskFullEnv exampleWorld) =
     Inl ''Error: ENOSPC: no space left on device, write''
   \<and> written (snd (updateListings diskFullEnv exampleWorld)) = [FILES_cexListings, FILES_status]
   \<and> cexListingsFile (snd (updateListings diskFullEnv exampleWorld)) \<noteq>
       cexListingsFile exampleWorld
   \<and> fst (updateListings exampleEnv
      (exampleWorld\<lparr>statusFile := Inl ''SyntaxError: Unexpected end of JSON input''\<rparr>)) =
     Inl ''SyntaxError: Unexpected end of JSON input''
   \<and> written (snd (updateListings exampleEnv
      (exampleWorld\<lparr>statusFile := Inl ''SyntaxError: Unexpected end of JSON input''\<rparr>))) =
     [FILES_cexListings, FILES_newListings]
   \<and> statusFile (snd (updateListings exampleEnv
      (exampleWorld\<lparr>statusFile := Inl ''SyntaxError: Unexpected end of JSON input''\<rparr>))) =
     Inl ''SyntaxError: Unexpected end of JSON input''"
  by code_simp

end
